theory Spec2Isabelle
  imports Complex_Main "HOL-Library.Log_Nat"
begin

section \<open>Python strings\<close>

text \<open>
  Strings are byte lists. \<open>str.lower\<close> is modelled on the ASCII letters, which is all the
  extension test of \<open>upload_file_info\<close> depends on: no other character lowers to one of
  the letters of \<open>csv\<close>, \<open>xlsx\<close>, \<open>xls\<close>.
\<close>

definition py_lower_char :: "char \<Rightarrow> char" where
  "py_lower_char c =
     (case map_of (zip ''ABCDEFGHIJKLMNOPQRSTUVWXYZ'' ''abcdefghijklmnopqrstuvwxyz'') c of
        Some d \<Rightarrow> d
      | None \<Rightarrow> c)"

definition lower :: "string \<Rightarrow> string" where
  "lower s = map py_lower_char s"

text \<open>\<open>s.split(".")[-1]\<close>: what follows the last dot, the whole string when there is none.\<close>

definition last_segment :: "string \<Rightarrow> string" where
  "last_segment s = rev (takeWhile (\<lambda>c. c \<noteq> CHR ''.'') (rev s))"

definition endswith :: "string \<Rightarrow> string \<Rightarrow> bool" where
  "endswith s suf = (length suf \<le> length s \<and> drop (length s - length suf) s = suf)"

text \<open>\<open>str(n)\<close> of an integer.\<close>

definition digit_char :: "nat \<Rightarrow> char" where
  "digit_char d =
     (if d = 0 then CHR ''0'' else if d = 1 then CHR ''1'' else if d = 2 then CHR ''2''
      else if d = 3 then CHR ''3'' else if d = 4 then CHR ''4'' else if d = 5 then CHR ''5''
      else if d = 6 then CHR ''6'' else if d = 7 then CHR ''7'' else if d = 8 then CHR ''8''
      else if d = 9 then CHR ''9'' else if d = 10 then CHR ''a'' else if d = 11 then CHR ''b''
      else if d = 12 then CHR ''c'' else if d = 13 then CHR ''d'' else if d = 14 then CHR ''e''
      else CHR ''f'')"

fun digits :: "nat \<Rightarrow> string" where
  "digits n = (if n < 10 then [digit_char n] else digits (n div 10) @ [digit_char (n mod 10)])"

declare digits.simps [simp del]

definition str_int :: "int \<Rightarrow> string" where
  "str_int i = (if i < 0 then CHR ''-'' # digits (nat (- i)) else digits (nat i))"

text \<open>
  \<open>repr\<close> of a string and of a list of strings, as an f-string renders a list: single
  quotes unless the string holds a single quote and no double quote; backslash, the quote
  in use, tab, newline and carriage return escaped; other control characters as \<open>\xNN\<close>.
  Bytes from 128 on (the UTF-8 encoding of a non-ASCII character) are kept as they are,
  which is what \<open>repr\<close> does for printable characters.
\<close>

definition repr_quote :: "string \<Rightarrow> char" where
  "repr_quote s = (if CHR 0x27 \<in> set s \<and> CHR 0x22 \<notin> set s then CHR 0x22 else CHR 0x27)"

definition repr_char :: "char \<Rightarrow> char \<Rightarrow> string" where
  "repr_char q c =
     (if c = CHR 0x5C then [CHR 0x5C, CHR 0x5C]
      else if c = q then [CHR 0x5C, q]
      else if c = CHR 0x09 then [CHR 0x5C, CHR ''t'']
      else if c = CHR 0x0A then [CHR 0x5C, CHR ''n'']
      else if c = CHR 0x0D then [CHR 0x5C, CHR ''r'']
      else if (of_char c :: nat) < 32 \<or> (of_char c :: nat) = 127
        then [CHR 0x5C, CHR ''x'', digit_char ((of_char c :: nat) div 16),
              digit_char ((of_char c :: nat) mod 16)]
      else [c])"

definition repr_str :: "string \<Rightarrow> string" where
  "repr_str s = (let q = repr_quote s in [q] @ concat (map (repr_char q) s) @ [q])"

fun join :: "string \<Rightarrow> string list \<Rightarrow> string" where
  "join sep [] = []"
| "join sep [x] = x"
| "join sep (x # y # ys) = x @ sep @ join sep (y # ys)"

definition repr_list :: "string list \<Rightarrow> string" where
  "repr_list xs = ''['' @ join '', '' (map repr_str xs) @ '']''"

section \<open>Exceptions and the response envelope\<close>

text \<open>
  An exception is FastAPI's \<open>HTTPException\<close> (status code, detail), raised by
  \<open>read_file\<close>, or any other subclass of \<open>Exception\<close> raised by a library, with its class
  name and its message. \<open>BaseException\<close>s outside \<open>Exception\<close> (interpreter exit,
  task cancellation) are not modelled.
\<close>

datatype exn = HTTPException nat string | PyException string string

section \<open>Tables\<close>

text \<open>
  A pandas column by the kind of its dtype: \<open>Numeric\<close> for the dtypes under
  \<open>np.number\<close>, with \<open>None\<close> for a missing entry (NaN); \<open>Boolean\<close> for \<open>bool\<close>;
  \<open>Object\<close> for every other dtype. A frame is its row count and its named columns, each
  of that many entries; the readers give distinct column names.
\<close>

datatype column = Numeric "real option list" | Boolean "bool list" | Object "string option list"

record dataframe =
  nrows :: nat
  cols :: "(string \<times> column) list"

definition df_columns :: "dataframe \<Rightarrow> string list" where
  "df_columns df = map fst (cols df)"

datatype cell = CNum real | CBool bool | CStr string

record FileInfo =
  info_filename :: string
  shape :: "nat \<times> nat"
  info_columns :: "string list"
  dtypes :: "(string \<times> string) list"
  missing_values :: "(string \<times> nat) list"
  preview :: "(string \<times> cell) list list"

text \<open>
  A binary64 float \<open>Double m e\<close> is \<open>m * 2 ^ e\<close>; \<open>test_size\<close> is kept in this form
  because the size of the test partition is a ceiling of a rounded product.
\<close>

datatype double = Double int int

record SVRParameters =
  C :: "real option"
  epsilon :: "real option"
  gamma :: "string option"
  kernel :: "string option"
  target_column :: string
  feature_columns :: "string list option"
  test_size :: "double option"
  random_state :: "int option"

text \<open>A metric is a float: \<open>None\<close> is NaN.\<close>

record SVRMetrics =
  train_mse :: "real option"
  test_mse :: "real option"
  train_r2 :: "real option"
  test_r2 :: "real option"
  train_mae :: "real option"
  test_mae :: "real option"

record data_info =
  total_samples :: nat
  training_samples :: nat
  test_samples :: nat
  features :: nat
  feature_names :: "string list"

record plots =
  actual_vs_predicted :: string
  residuals :: string

record SVRResult =
  model_parameters :: SVRParameters
  metrics :: SVRMetrics
  result_data_info :: data_info
  result_plots :: plots

datatype payload = FileInfoData FileInfo | SVRResultData SVRResult

record ApiResponse =
  success :: bool
  message :: string
  data :: "payload option"
  error :: "string option"

record UploadFile =
  filename :: string
  file_size :: "nat option"
  content :: string


section \<open>External collaborators\<close>

text \<open>
  What the endpoints call outside this repository (the process environment, pydantic,
  pandas' readers, numpy's generator, the SVR solver, matplotlib) is a parameter of the
  model: each call returns a value or raises. \<open>svr_fit\<close> returns the fitted model as its
  prediction function. \<open>permutation seed n\<close> is \<open>RandomState(seed).permutation(n)\<close>,
  and \<open>entropy_permutation n\<close> the permutation drawn when the request has no seed.
  \<open>http_exception_str\<close> is \<open>str\<close> of an \<open>HTTPException\<close>, which the installed Starlette
  decides. \<open>object_target\<close> is the target vector a non-numeric column yields after
  \<open>y.fillna(y.mean())\<close>, or the exception the pipeline raises on it. \<open>error_text\<close>
  gives the message of each library exception the model raises itself, by a short tag.
\<close>

datatype figure = Figure string

type_synonym matrix = "real option list list"

record externals =
  getenv :: "string \<Rightarrow> string option"
  py_int :: "string \<Rightarrow> exn + int"
  http_exception_str :: "nat \<Rightarrow> string \<Rightarrow> string"
  decode_utf8 :: "string \<Rightarrow> exn + string"
  read_csv :: "string \<Rightarrow> exn + dataframe"
  read_excel :: "string \<Rightarrow> exn + dataframe"
  dtype_name :: "column \<Rightarrow> string"
  parse_raw :: "string \<Rightarrow> exn + SVRParameters"
  object_target :: "string option list \<Rightarrow> exn + real option list"
  permutation :: "int \<Rightarrow> nat \<Rightarrow> nat list"
  entropy_permutation :: "nat \<Rightarrow> nat list"
  svr_fit :: "real option \<Rightarrow> real option \<Rightarrow> string \<Rightarrow> string option \<Rightarrow> matrix
                \<Rightarrow> real option list \<Rightarrow> exn + (matrix \<Rightarrow> exn + real option list)"
  plot_actual_vs_predicted :: "real option list \<Rightarrow> real option list \<Rightarrow> real option list
                \<Rightarrow> real option list \<Rightarrow> SVRMetrics \<Rightarrow> exn + figure"
  plot_residuals :: "real option list \<Rightarrow> real option list \<Rightarrow> real option list
                \<Rightarrow> real option list \<Rightarrow> exn + figure"
  savefig :: "figure \<Rightarrow> exn + string"
  b64encode :: "string \<Rightarrow> string"
  error_text :: "string \<Rightarrow> string"

definition exc_str :: "externals \<Rightarrow> exn \<Rightarrow> string" where
  "exc_str L e =
     (case e of HTTPException code detail \<Rightarrow> http_exception_str L code detail
      | PyException cls msg \<Rightarrow> msg)"

section \<open>Utility functions\<close>

definition read_file_body :: "externals \<Rightarrow> UploadFile \<Rightarrow> exn + dataframe" where
  "read_file_body L file =
     (if endswith (filename file) ''.csv'' then
        (case decode_utf8 L (content file) of
           Inl e \<Rightarrow> Inl e
         | Inr text \<Rightarrow> read_csv L text)
      else if endswith (filename file) ''.xlsx'' \<or> endswith (filename file) ''.xls'' then
        read_excel L (content file)
      else Inl (HTTPException 400 ''Unsupported file format''))"

definition read_file :: "externals \<Rightarrow> UploadFile \<Rightarrow> exn + dataframe" where
  "read_file L file =
     (case read_file_body L file of
        Inr df \<Rightarrow> Inr df
      | Inl e \<Rightarrow> Inl (HTTPException 400 (''Error reading file: '' @ exc_str L e)))"

definition create_plot_base64 :: "externals \<Rightarrow> figure \<Rightarrow> exn + string" where
  "create_plot_base64 L fig =
     (case savefig L fig of
        Inr plot_data \<Rightarrow> Inr (''data:image/png;base64,'' @ b64encode L plot_data)
      | Inl e \<Rightarrow> Inl (PyException ''Exception'' (''Error creating plot: '' @ exc_str L e)))"

section \<open>The upload-info endpoint\<close>

definition allowed_extensions :: "string list" where
  "allowed_extensions = [''csv'', ''xlsx'', ''xls'']"

text \<open>\<open>int(os.getenv("MAX_FILE_SIZE", 50485760))\<close>.\<close>

definition max_file_size :: "externals \<Rightarrow> exn + int" where
  "max_file_size L =
     (case getenv L ''MAX_FILE_SIZE'' of None \<Rightarrow> Inr 50485760 | Some s \<Rightarrow> py_int L s)"

text \<open>\<open>file.size and file.size > max_size\<close>: an absent or zero size is falsy.\<close>

definition too_large :: "nat option \<Rightarrow> int \<Rightarrow> bool" where
  "too_large sz max_size =
     (case sz of None \<Rightarrow> False | Some n \<Rightarrow> n \<noteq> 0 \<and> int n > max_size)"

definition missing_count :: "column \<Rightarrow> nat" where
  "missing_count c =
     (case c of
        Numeric xs \<Rightarrow> length (filter (\<lambda>x. x = None) xs)
      | Boolean bs \<Rightarrow> 0
      | Object ss \<Rightarrow> length (filter (\<lambda>x. x = None) ss))"

text \<open>A cell of \<open>df.head().fillna("")\<close>.\<close>

definition cell_at :: "column \<Rightarrow> nat \<Rightarrow> cell" where
  "cell_at c i =
     (case c of
        Numeric xs \<Rightarrow> (case xs ! i of None \<Rightarrow> CStr [] | Some r \<Rightarrow> CNum r)
      | Boolean bs \<Rightarrow> CBool (bs ! i)
      | Object ss \<Rightarrow> (case ss ! i of None \<Rightarrow> CStr [] | Some s \<Rightarrow> CStr s))"

definition file_info_of :: "externals \<Rightarrow> string \<Rightarrow> dataframe \<Rightarrow> FileInfo" where
  "file_info_of L name df =
     \<lparr>info_filename = name,
      shape = (nrows df, length (cols df)),
      info_columns = df_columns df,
      dtypes = map (\<lambda>(col, c). (col, dtype_name L c)) (cols df),
      missing_values = map (\<lambda>(col, c). (col, missing_count c)) (cols df),
      preview = map (\<lambda>i. map (\<lambda>(col, c). (col, cell_at c i)) (cols df)) [0 ..< min 5 (nrows df)]\<rparr>"

definition upload_file_info_body :: "externals \<Rightarrow> UploadFile \<Rightarrow> exn + ApiResponse" where
  "upload_file_info_body L file =
     (case max_file_size L of
        Inl e \<Rightarrow> Inl e
      | Inr max_size \<Rightarrow>
          if too_large (file_size file) max_size then
            Inr \<lparr>success = False, message = ''File too large'', data = None,
                 error = Some (''File size exceeds '' @ str_int max_size @ '' bytes'')\<rparr>
          else if lower (last_segment (filename file)) \<notin> set allowed_extensions then
            Inr \<lparr>success = False, message = ''Invalid file format'', data = None,
                 error = Some (''Only '' @ repr_list allowed_extensions @ '' files are allowed'')\<rparr>
          else
            (case read_file L file of
               Inl e \<Rightarrow> Inl e
             | Inr df \<Rightarrow>
                 Inr \<lparr>success = True, message = ''File uploaded successfully'',
                      data = Some (FileInfoData (file_info_of L (filename file) df)),
                      error = None\<rparr>))"

definition upload_file_info :: "externals \<Rightarrow> UploadFile \<Rightarrow> ApiResponse" where
  "upload_file_info L file =
     (case upload_file_info_body L file of
        Inr response \<Rightarrow> response
      | Inl e \<Rightarrow> \<lparr>success = False, message = ''Failed to process file'', data = None,
                  error = Some (exc_str L e)\<rparr>)"


section \<open>Feature and target selection\<close>

text \<open>\<open>if params.feature_columns:\<close> is false for an absent and for an empty list.\<close>

definition feature_cols_of :: "SVRParameters \<Rightarrow> dataframe \<Rightarrow> string list" where
  "feature_cols_of params df =
     (case feature_columns params of
        None \<Rightarrow> filter (\<lambda>col. col \<noteq> target_column params) (df_columns df)
      | Some fc \<Rightarrow>
          if fc \<noteq> [] then fc
          else filter (\<lambda>col. col \<noteq> target_column params) (df_columns df))"

definition missing_cols_of :: "string list \<Rightarrow> dataframe \<Rightarrow> string list" where
  "missing_cols_of feature_cols df = filter (\<lambda>col. col \<notin> set (df_columns df)) feature_cols"

text \<open>\<open>df[feature_cols].select_dtypes(include=[np.number])\<close>, column by column.\<close>

definition numeric_column :: "dataframe \<Rightarrow> string \<Rightarrow> (string \<times> real option list) list" where
  "numeric_column df col =
     (case map_of (cols df) col of Some (Numeric xs) \<Rightarrow> [(col, xs)] | _ \<Rightarrow> [])"

definition select_numeric :: "dataframe \<Rightarrow> string list \<Rightarrow> (string \<times> real option list) list" where
  "select_numeric df feature_cols = concat (map (numeric_column df) feature_cols)"

text \<open>
  Lines 194 to 226 of \<open>train_svr_model\<close>: the three validation responses, or the feature
  matrix \<open>X\<close> (named numeric columns) and the target column \<open>y\<close>. The lookup of the
  target column is \<open>None\<close> exactly when the name is not in \<open>df.columns\<close>.
\<close>

definition prepare_data ::
  "SVRParameters \<Rightarrow> dataframe \<Rightarrow> ApiResponse + ((string \<times> real option list) list \<times> column)" where
  "prepare_data params df =
     (case map_of (cols df) (target_column params) of
        None \<Rightarrow>
          Inl \<lparr>success = False, message = ''Invalid target column'', data = None,
               error = Some (''Column '' @ [CHR 0x27] @ target_column params @ [CHR 0x27]
                             @ '' not found in dataset'')\<rparr>
      | Some y \<Rightarrow>
          let feature_cols = feature_cols_of params df;
              missing_cols = missing_cols_of feature_cols df
          in if missing_cols \<noteq> [] then
               Inl \<lparr>success = False, message = ''Invalid feature columns'', data = None,
                    error = Some (''Columns not found: '' @ repr_list missing_cols)\<rparr>
             else
               let X = select_numeric df feature_cols
               in if X = [] \<or> nrows df = 0 then
                    Inl \<lparr>success = False, message = ''No numeric features found'', data = None,
                         error = Some ''At least one numeric feature column is required''\<rparr>
                  else Inr (X, y))"

section \<open>Missing values\<close>

text \<open>
  \<open>Series.mean()\<close> skips the missing entries and is NaN when nothing is left;
  \<open>fillna\<close> with a NaN fill value changes nothing.
\<close>

definition present :: "real option list \<Rightarrow> real list" where
  "present xs = map the (filter (\<lambda>x. x \<noteq> None) xs)"

definition mean :: "real option list \<Rightarrow> real option" where
  "mean xs =
     (if present xs = [] then None
      else Some (sum_list (present xs) / real (length (present xs))))"

definition fillna :: "real option list \<Rightarrow> real option \<Rightarrow> real option list" where
  "fillna xs v = map (\<lambda>x. case x of None \<Rightarrow> v | Some a \<Rightarrow> Some a) xs"

definition fillna_mean :: "real option list \<Rightarrow> real option list" where
  "fillna_mean xs = fillna xs (mean xs)"

definition impute_features :: "(string \<times> real option list) list \<Rightarrow> (string \<times> real option list) list" where
  "impute_features X = map (\<lambda>(col, xs). (col, fillna_mean xs)) X"

definition impute_target :: "externals \<Rightarrow> column \<Rightarrow> exn + real option list" where
  "impute_target L y =
     (case y of
        Numeric ys \<Rightarrow> Inr (fillna_mean ys)
      | Boolean bs \<Rightarrow> Inr (map (\<lambda>b. Some (if b then 1 else 0)) bs)
      | Object ss \<Rightarrow> object_target L ss)"


section \<open>Train/test split\<close>

text \<open>
  \<open>sklearn.model_selection.train_test_split\<close> with a float \<open>test_size\<close> and no
  \<open>train_size\<close>: \<open>n_test = ceil(test_size * n_samples)\<close>, the product being the binary64
  product (exact product rounded to 53 bits, ties to even; row counts are below \<open>2 ^ 53\<close>
  and convert exactly), \<open>n_train = n_samples - n_test\<close>; the test rows are the first
  \<open>n_test\<close> entries of the seeded permutation and the training rows the next \<open>n_train\<close>.
  A missing \<open>test_size\<close> is 0.25.
\<close>

definition round53 :: "int \<Rightarrow> int \<Rightarrow> double" where
  "round53 M e =
     (let k = bitlen \<bar>M\<bar> - 53
      in if k \<le> 0 then Double M e
         else
           let q = \<bar>M\<bar> div 2 ^ nat k;
               r = \<bar>M\<bar> mod 2 ^ nat k;
               h = 2 ^ nat (k - 1)
           in Double (sgn M * (if h < r \<or> (r = h \<and> odd q) then q + 1 else q)) (e + k))"

definition float_mul_int :: "double \<Rightarrow> nat \<Rightarrow> double" where
  "float_mul_int f n = (case f of Double m e \<Rightarrow> round53 (m * int n) e)"

definition ceil_double :: "double \<Rightarrow> int" where
  "ceil_double f =
     (case f of Double m e \<Rightarrow>
        if 0 \<le> e then m * 2 ^ nat e else - ((- m) div 2 ^ nat (- e)))"

definition double_val :: "double \<Rightarrow> real" where
  "double_val f =
     (case f of Double m e \<Rightarrow>
        if 0 \<le> e then of_int m * 2 ^ nat e else of_int m / 2 ^ nat (- e))"

definition double_le_zero :: "double \<Rightarrow> bool" where
  "double_le_zero f = (case f of Double m e \<Rightarrow> m \<le> 0)"

definition double_ge_one :: "double \<Rightarrow> bool" where
  "double_ge_one f =
     (case f of Double m e \<Rightarrow> if 0 \<le> e then 1 \<le> m else 2 ^ nat (- e) \<le> m)"

definition n_test_of :: "double option \<Rightarrow> nat \<Rightarrow> int" where
  "n_test_of ts n =
     ceil_double (float_mul_int (case ts of None \<Rightarrow> Double 1 (- 2) | Some f \<Rightarrow> f) n)"

definition validate_shuffle_split :: "externals \<Rightarrow> nat \<Rightarrow> double option \<Rightarrow> exn + (int \<times> int)" where
  "validate_shuffle_split L n_samples ts =
     (let f = (case ts of None \<Rightarrow> Double 1 (- 2) | Some f \<Rightarrow> f)
      in if double_le_zero f \<or> double_ge_one f then
           Inl (PyException ''ValueError'' (error_text L ''test_size''))
         else
           let n_test = n_test_of ts n_samples;
               n_train = int n_samples - n_test
           in if n_train = 0 then Inl (PyException ''ValueError'' (error_text L ''empty train set''))
              else Inr (n_train, n_test))"

text \<open>\<open>check_random_state\<close>: an integer seed outside \<open>[0, 2 ^ 32)\<close> is refused by numpy.\<close>

definition rng_permutation :: "externals \<Rightarrow> int option \<Rightarrow> nat \<Rightarrow> exn + nat list" where
  "rng_permutation L seed n =
     (case seed of
        None \<Rightarrow> Inr (entropy_permutation L n)
      | Some s \<Rightarrow>
          if 0 \<le> s \<and> s < 2 ^ 32 then Inr (permutation L s n)
          else Inl (PyException ''ValueError'' (error_text L ''seed'')))"

text \<open>The row indices of the training and of the test partition, in this order.\<close>

definition train_test_split ::
  "externals \<Rightarrow> nat \<Rightarrow> double option \<Rightarrow> int option \<Rightarrow> exn + (nat list \<times> nat list)" where
  "train_test_split L n_samples ts seed =
     (case validate_shuffle_split L n_samples ts of
        Inl e \<Rightarrow> Inl e
      | Inr (n_train, n_test) \<Rightarrow>
          (case rng_permutation L seed n_samples of
             Inl e \<Rightarrow> Inl e
           | Inr perm \<Rightarrow>
               Inr (take (nat n_train) (drop (nat n_test) perm), take (nat n_test) perm)))"

text \<open>Row selection; an index outside the column raises.\<close>

definition take_rows :: "externals \<Rightarrow> 'a list \<Rightarrow> nat list \<Rightarrow> exn + 'a list" where
  "take_rows L xs idx =
     (if list_all (\<lambda>i. i < length xs) idx then Inr (map (\<lambda>i. xs ! i) idx)
      else Inl (PyException ''IndexError'' (error_text L ''index'')))"

definition take_rows_matrix :: "externals \<Rightarrow> matrix \<Rightarrow> nat list \<Rightarrow> exn + matrix" where
  "take_rows_matrix L X idx =
     (if list_all (\<lambda>xs. list_all (\<lambda>i. i < length xs) idx) X
      then Inr (map (\<lambda>xs. map (\<lambda>i. xs ! i) idx) X)
      else Inl (PyException ''IndexError'' (error_text L ''index'')))"

section \<open>Feature scaling\<close>

text \<open>
  \<open>StandardScaler\<close>: per column the mean and the population variance of the entries that
  are not NaN; the scale is the square root of the variance, and 1 for a constant column;
  \<open>transform\<close> maps \<open>x\<close> to \<open>(x - mean) / scale\<close> and keeps NaN.
\<close>

definition variance :: "real option list \<Rightarrow> real option" where
  "variance xs =
     (case mean xs of
        None \<Rightarrow> None
      | Some m \<Rightarrow> Some (sum_list (map (\<lambda>v. (v - m)\<^sup>2) (present xs)) / real (length (present xs))))"

definition column_scale :: "real option list \<Rightarrow> real option" where
  "column_scale xs =
     (case variance xs of None \<Rightarrow> None | Some v \<Rightarrow> Some (if v = 0 then 1 else sqrt v))"

record scaler =
  scaler_mean :: "real option list"
  scaler_scale :: "real option list"

definition scaler_fit :: "matrix \<Rightarrow> scaler" where
  "scaler_fit X = \<lparr>scaler_mean = map mean X, scaler_scale = map column_scale X\<rparr>"

definition scale_value :: "real option \<Rightarrow> real option \<Rightarrow> real option \<Rightarrow> real option" where
  "scale_value m s x =
     (case x of
        None \<Rightarrow> None
      | Some v \<Rightarrow> (case m of None \<Rightarrow> None
                  | Some mu \<Rightarrow> (case s of None \<Rightarrow> None | Some sd \<Rightarrow> Some ((v - mu) / sd))))"

definition scaler_transform :: "scaler \<Rightarrow> matrix \<Rightarrow> matrix" where
  "scaler_transform sc X =
     map (\<lambda>(xs, m, s). map (scale_value m s) xs) (zip X (zip (scaler_mean sc) (scaler_scale sc)))"


section \<open>Model fitting and metrics\<close>

definition bind_exn :: "exn + 'a \<Rightarrow> ('a \<Rightarrow> exn + 'b) \<Rightarrow> exn + 'b" where
  "bind_exn m f = (case m of Inl e \<Rightarrow> Inl e | Inr x \<Rightarrow> f x)"

text \<open>
  \<open>SVR(C, epsilon, gamma, kernel).fit\<close>. The field \<open>gamma\<close> of the request is a string
  or absent, and the estimator accepts the strings \<open>scale\<close> and \<open>auto\<close> only; its input
  validation refuses a matrix without features or without samples, and any NaN in the
  matrix or in the target.
  Each of these raises a \<open>ValueError\<close>. Every other check and the solver itself are the
  collaborator \<open>svr_fit\<close>.
\<close>

definition SVR_fit ::
  "externals \<Rightarrow> SVRParameters \<Rightarrow> matrix \<Rightarrow> real option list
     \<Rightarrow> exn + (matrix \<Rightarrow> exn + real option list)" where
  "SVR_fit L params X y =
     (case gamma params of
        None \<Rightarrow> Inl (PyException ''ValueError'' (error_text L ''SVR.fit''))
      | Some g \<Rightarrow>
          if (g = ''scale'' \<or> g = ''auto'')
             \<and> X \<noteq> [] \<and> \<not> list_ex (\<lambda>xs. xs = [] \<or> None \<in> set xs) X \<and> None \<notin> set y
          then svr_fit L (C params) (epsilon params) g (kernel params) X y
          else Inl (PyException ''ValueError'' (error_text L ''SVR.fit'')))"

text \<open>
  \<open>sklearn.metrics\<close>: the targets are checked first (same length, at least one sample,
  no NaN). \<open>r2_score\<close> is NaN on fewer than two samples; with a zero total sum of squares it
  is 1 when the residual sum of squares is zero too and 0 otherwise.
\<close>

definition check_reg_targets ::
  "externals \<Rightarrow> real option list \<Rightarrow> real option list \<Rightarrow> exn + (real list \<times> real list)" where
  "check_reg_targets L y_true y_pred =
     (if length y_true \<noteq> length y_pred
        then Inl (PyException ''ValueError'' (error_text L ''inconsistent length''))
      else if y_true = []
        then Inl (PyException ''ValueError'' (error_text L ''no samples''))
      else if None \<in> set y_true \<or> None \<in> set y_pred
        then Inl (PyException ''ValueError'' (error_text L ''NaN''))
      else Inr (map the y_true, map the y_pred))"

definition ss_res :: "real list \<Rightarrow> real list \<Rightarrow> real" where
  "ss_res t p = sum_list (map (\<lambda>(a, b). (a - b)\<^sup>2) (zip t p))"

definition ss_tot :: "real list \<Rightarrow> real" where
  "ss_tot t = sum_list (map (\<lambda>a. (a - sum_list t / real (length t))\<^sup>2) t)"

definition mean_squared_error ::
  "externals \<Rightarrow> real option list \<Rightarrow> real option list \<Rightarrow> exn + real option" where
  "mean_squared_error L y_true y_pred =
     bind_exn (check_reg_targets L y_true y_pred)
       (\<lambda>(t, p). Inr (Some (ss_res t p / real (length t))))"

definition mean_absolute_error ::
  "externals \<Rightarrow> real option list \<Rightarrow> real option list \<Rightarrow> exn + real option" where
  "mean_absolute_error L y_true y_pred =
     bind_exn (check_reg_targets L y_true y_pred)
       (\<lambda>(t, p). Inr (Some (sum_list (map (\<lambda>(a, b). \<bar>a - b\<bar>) (zip t p)) / real (length t))))"

definition r2_value :: "real list \<Rightarrow> real list \<Rightarrow> real option" where
  "r2_value t p =
     (if length p < 2 then None
      else if ss_tot t \<noteq> 0 then Some (1 - ss_res t p / ss_tot t)
      else if ss_res t p \<noteq> 0 then Some 0
      else Some 1)"

definition r2_score ::
  "externals \<Rightarrow> real option list \<Rightarrow> real option list \<Rightarrow> exn + real option" where
  "r2_score L y_true y_pred =
     bind_exn (check_reg_targets L y_true y_pred) (\<lambda>(t, p). Inr (r2_value t p))"

definition evaluate ::
  "externals \<Rightarrow> real option list \<Rightarrow> real option list \<Rightarrow> real option list \<Rightarrow> real option list
     \<Rightarrow> exn + SVRMetrics" where
  "evaluate L y_train y_train_pred y_test y_test_pred =
     bind_exn (mean_squared_error L y_train y_train_pred) (\<lambda>m1.
     bind_exn (mean_squared_error L y_test y_test_pred) (\<lambda>m2.
     bind_exn (r2_score L y_train y_train_pred) (\<lambda>r1.
     bind_exn (r2_score L y_test y_test_pred) (\<lambda>r2.
     bind_exn (mean_absolute_error L y_train y_train_pred) (\<lambda>a1.
     bind_exn (mean_absolute_error L y_test y_test_pred) (\<lambda>a2.
       Inr \<lparr>train_mse = m1, test_mse = m2, train_r2 = r1, test_r2 = r2,
            train_mae = a1, test_mae = a2\<rparr>))))))"

section \<open>Plots\<close>

definition render_plots ::
  "externals \<Rightarrow> real option list \<Rightarrow> real option list \<Rightarrow> real option list \<Rightarrow> real option list
     \<Rightarrow> SVRMetrics \<Rightarrow> exn + plots" where
  "render_plots L y_train y_train_pred y_test y_test_pred ms =
     bind_exn (plot_actual_vs_predicted L y_train y_train_pred y_test y_test_pred ms) (\<lambda>fig1.
     bind_exn (create_plot_base64 L fig1) (\<lambda>actual_vs_predicted_plot.
     bind_exn (plot_residuals L y_train y_train_pred y_test y_test_pred) (\<lambda>fig2.
     bind_exn (create_plot_base64 L fig2) (\<lambda>residuals_plot.
       Inr \<lparr>actual_vs_predicted = actual_vs_predicted_plot, residuals = residuals_plot\<rparr>))))"

section \<open>The train-svr endpoint\<close>

text \<open>Lines 228 to 342 of \<open>train_svr_model\<close>, from the imputation to the assembled result.\<close>

definition run_pipeline ::
  "externals \<Rightarrow> SVRParameters \<Rightarrow> dataframe \<Rightarrow> (string \<times> real option list) list \<Rightarrow> column
     \<Rightarrow> exn + SVRResult" where
  "run_pipeline L params df X0 y0 =
     (let X = impute_features X0 in
      bind_exn (impute_target L y0) (\<lambda>y.
      bind_exn (train_test_split L (nrows df) (test_size params) (random_state params))
        (\<lambda>(train, test).
      bind_exn (take_rows_matrix L (map snd X) train) (\<lambda>X_train.
      bind_exn (take_rows_matrix L (map snd X) test) (\<lambda>X_test.
      bind_exn (take_rows L y train) (\<lambda>y_train.
      bind_exn (take_rows L y test) (\<lambda>y_test.
        let sc = scaler_fit X_train;
            X_train_scaled = scaler_transform sc X_train;
            X_test_scaled = scaler_transform sc X_test
        in
      bind_exn (SVR_fit L params X_train_scaled y_train) (\<lambda>predict.
      bind_exn (predict X_train_scaled) (\<lambda>y_train_pred.
      bind_exn (predict X_test_scaled) (\<lambda>y_test_pred.
      bind_exn (evaluate L y_train y_train_pred y_test y_test_pred) (\<lambda>ms.
      bind_exn (render_plots L y_train y_train_pred y_test y_test_pred ms) (\<lambda>pl.
        Inr \<lparr>model_parameters = params\<lparr>feature_columns := Some (map fst X)\<rparr>,
             metrics = ms,
             result_data_info =
               \<lparr>total_samples = nrows df, training_samples = length train,
                test_samples = length test, features = length X,
                feature_names = map fst X\<rparr>,
             result_plots = pl\<rparr>))))))))))))"

definition train_svr_model_body :: "externals \<Rightarrow> UploadFile \<Rightarrow> string \<Rightarrow> exn + ApiResponse" where
  "train_svr_model_body L file parameters =
     bind_exn (parse_raw L parameters) (\<lambda>params.
     bind_exn (read_file L file) (\<lambda>df.
       case prepare_data params df of
         Inl response \<Rightarrow> Inr response
       | Inr (X, y) \<Rightarrow>
           bind_exn (run_pipeline L params df X y) (\<lambda>result.
             Inr \<lparr>success = True, message = ''SVR model trained successfully'',
                  data = Some (SVRResultData result), error = None\<rparr>)))"

definition train_svr_model :: "externals \<Rightarrow> UploadFile \<Rightarrow> string \<Rightarrow> ApiResponse" where
  "train_svr_model L file parameters =
     (case train_svr_model_body L file parameters of
        Inr response \<Rightarrow> response
      | Inl e \<Rightarrow> \<lparr>success = False, message = ''Failed to train SVR model'', data = None,
                  error = Some (exc_str L e)\<rparr>)"


definition result_of :: "ApiResponse \<Rightarrow> SVRResult option" where
  "result_of response =
     (case data response of Some (SVRResultData r) \<Rightarrow> Some r | _ \<Rightarrow> None)"

definition feature_names_of :: "ApiResponse \<Rightarrow> string list option" where
  "feature_names_of response =
     map_option (\<lambda>res. feature_names (result_data_info res)) (result_of response)"


section \<open>A sample request\<close>

text \<open>
  A concrete world to run the endpoints in: no \<open>MAX_FILE_SIZE\<close> in the environment, a
  reader that yields a four-row table with the columns \<open>x\<close>, \<open>label\<close> and \<open>y\<close> (and, for
  the file \<open>gappy_file\<close>, a table whose column \<open>x\<close> is entirely missing), a request
  text \<open>sample_text\<close> that parses to the given parameters, a generator whose permutation
  is the reversal, a solver whose model predicts 5 for every row, and plots that render.
  \<open>float_0_2\<close> is the binary64 float nearest to 0.2, the default \<open>test_size\<close>.
\<close>

definition float_0_2 :: double where
  "float_0_2 = Double 3602879701896397 (- 54)"

definition sample_params :: SVRParameters where
  "sample_params =
     \<lparr>C = Some 1, epsilon = Some (1 / 10), gamma = Some ''scale'', kernel = Some ''rbf'',
      target_column = ''y'', feature_columns = None, test_size = Some float_0_2,
      random_state = Some 42\<rparr>"

definition sample_frame :: dataframe where
  "sample_frame =
     \<lparr>nrows = 4,
      cols = [(''x'', Numeric [Some 1, Some 2, Some 3, Some 4]),
              (''label'', Object [Some ''a'', Some ''b'', None, Some ''d'']),
              (''y'', Numeric [Some 2, Some 4, Some 6, Some 8])]\<rparr>"

definition gappy_frame :: dataframe where
  "gappy_frame =
     \<lparr>nrows = 4,
      cols = [(''x'', Numeric [None, None, None, None]),
              (''y'', Numeric [Some 2, Some 4, Some 6, Some 8])]\<rparr>"

definition gappy_file :: UploadFile where
  "gappy_file = \<lparr>filename = ''gaps.csv'', file_size = Some 32, content = ''x,y''\<rparr>"

definition sample_file :: UploadFile where
  "sample_file = \<lparr>filename = ''data.csv'', file_size = Some 64, content = ''x,label,y''\<rparr>"

definition sample_text :: string where
  "sample_text = ''parameters''"

text \<open>
  A request whose \<open>gamma\<close> is the JSON number 0.1 either fails validation of the field
  \<open>gamma: Optional[str]\<close> (\<open>rejecting_parse\<close>), or is coerced to the string \<open>0.1\<close>,
  according to the installed pydantic.
\<close>

definition rejecting_parse :: "string \<Rightarrow> exn + SVRParameters" where
  "rejecting_parse request = Inl (PyException ''ValidationError'' ''gamma: str type expected'')"



definition sample_world :: "SVRParameters \<Rightarrow> externals" where
  "sample_world p =
     \<lparr>getenv = (\<lambda>name. None),
      py_int = (\<lambda>s. Inl (PyException ''ValueError'' ''invalid literal for int()'')),
      http_exception_str = (\<lambda>code detail. str_int (int code) @ '': '' @ detail),
      decode_utf8 = (\<lambda>bytes. Inr bytes),
      read_csv = (\<lambda>text. Inr (if text = ''x,y'' then gappy_frame else sample_frame)),
      read_excel = (\<lambda>bytes. Inr sample_frame),
      dtype_name = (\<lambda>c. case c of Numeric xs \<Rightarrow> ''float64'' | Boolean bs \<Rightarrow> ''bool''
                          | Object ss \<Rightarrow> ''object''),
      parse_raw = (\<lambda>text. Inr p),
      object_target = (\<lambda>ss. Inl (PyException ''TypeError'' ''could not convert string to float'')),
      permutation = (\<lambda>seed n. rev [0 ..< n]),
      entropy_permutation = (\<lambda>n. rev [0 ..< n]),
      svr_fit = (\<lambda>c eps g k X y. Inr (\<lambda>X'. Inr (case X' of [] \<Rightarrow> [] | xs # rest \<Rightarrow> map (\<lambda>x. Some 5) xs))),
      plot_actual_vs_predicted = (\<lambda>y_train p_train y_test p_test ms. Inr (Figure ''actual'')),
      plot_residuals = (\<lambda>y_train p_train y_test p_test. Inr (Figure ''residuals'')),
      savefig = (\<lambda>fig. case fig of Figure s \<Rightarrow> Inr s),
      b64encode = (\<lambda>bytes. bytes),
      error_text = (\<lambda>tag. tag)\<rparr>"


section \<open>Evaluation lemmas\<close>

lemma digits_lt: "n < 10 \<Longrightarrow> digits n = [digit_char n]"
  by (simp add: digits.simps)

lemma digits_ge: "10 \<le> n \<Longrightarrow> digits n = digits (n div 10) @ [digit_char (n mod 10)]"
  by (subst digits.simps) simp

lemma str_int_max_size: "str_int 50485760 = ''50485760''"
  by (simp add: str_int_def digits_lt digits_ge digit_char_def)

lemma str_int_400: "str_int 400 = ''400''"
  by (simp add: str_int_def digits_lt digits_ge digit_char_def)

lemma bitlen_sample: "bitlen 14411518807585588 = 54"
  by code_simp

lemma n_test_sample: "n_test_of (Some float_0_2) 4 = 1"
  by (simp add: n_test_of_def float_0_2_def float_mul_int_def round53_def bitlen_sample
      ceil_double_def Let_def)

lemma float_0_2_range: "\<not> double_le_zero float_0_2" "\<not> double_ge_one float_0_2"
  by (simp_all add: double_le_zero_def double_ge_one_def float_0_2_def)

lemma validate_sample: "validate_shuffle_split L 4 (Some float_0_2) = Inr (3, 1)"
  by (simp add: validate_shuffle_split_def n_test_sample float_0_2_range Let_def)

lemma split_sample:
  "train_test_split (sample_world p) 4 (Some float_0_2) (Some 42) = Inr ([2, 1, 0], [3])"
  by (simp add: train_test_split_def validate_sample rng_permutation_def sample_world_def upt_rec)

lemma read_file_sample: "read_file (sample_world p) sample_file = Inr sample_frame"
  by (simp add: read_file_def read_file_body_def sample_file_def endswith_def sample_world_def)

lemma prepare_sample:
  "prepare_data sample_params sample_frame =
     Inr ([(''x'', [Some 1, Some 2, Some 3, Some 4])], Numeric [Some 2, Some 4, Some 6, Some 8])"
  by (simp add: prepare_data_def sample_params_def sample_frame_def feature_cols_of_def
      missing_cols_of_def df_columns_def select_numeric_def numeric_column_def)

lemma present_Nil_iff: "present xs = [] \<longleftrightarrow> (\<forall>x\<in>set xs. x = None)"
  by (auto simp: present_def filter_empty_conv)

lemma mean_None_iff: "mean xs = None \<longleftrightarrow> present xs = []"
  by (simp add: mean_def)

lemma column_scale_None_iff: "column_scale xs = None \<longleftrightarrow> present xs = []"
  by (simp add: column_scale_def variance_def mean_def split: option.splits)

lemma scale_value_None_iff:
  "scale_value m s x = None \<longleftrightarrow> x = None \<or> m = None \<or> s = None"
  by (simp add: scale_value_def split: option.splits)

lemma scaled_entry_None_iff:
  "None = scale_value (mean xs) (column_scale xs) x \<longleftrightarrow> x = None \<or> present xs = []"
  using scale_value_None_iff [of "mean xs" "column_scale xs" x]
  by (auto simp: mean_None_iff column_scale_None_iff)

lemmas metric_defs =
  evaluate_def bind_exn_def mean_squared_error_def r2_score_def mean_absolute_error_def
  check_reg_targets_def ss_res_def ss_tot_def r2_value_def

lemma run_sample:
  "run_pipeline (sample_world sample_params) sample_params sample_frame
     [(''x'', [Some 1, Some 2, Some 3, Some 4])] (Numeric [Some 2, Some 4, Some 6, Some 8]) =
   Inr \<lparr>model_parameters = sample_params\<lparr>feature_columns := Some [''x'']\<rparr>,
        metrics = \<lparr>train_mse = Some (11 / 3), test_mse = Some 9, train_r2 = Some (- (3 / 8)),
                   test_r2 = None, train_mae = Some (5 / 3), test_mae = Some 3\<rparr>,
        result_data_info = \<lparr>total_samples = 4, training_samples = 3, test_samples = 1,
                            features = 1, feature_names = [''x'']\<rparr>,
        result_plots = \<lparr>actual_vs_predicted = ''data:image/png;base64,actual'',
                        residuals = ''data:image/png;base64,residuals''\<rparr>\<rparr>"
proof -
  have params: "test_size sample_params = Some float_0_2" "random_state sample_params = Some 42"
    "gamma sample_params = Some ''scale''"
    by (simp_all add: sample_params_def)
  have frame: "nrows sample_frame = 4"
    by (simp add: sample_frame_def)
  show ?thesis
    unfolding run_pipeline_def Let_def params frame split_sample
    by (simp add: impute_features_def impute_target_def fillna_mean_def fillna_def
        take_rows_matrix_def take_rows_def SVR_fit_def params sample_world_def
        scaler_transform_def scaler_fit_def scaled_entry_None_iff present_def
        metric_defs render_plots_def create_plot_base64_def)
qed

section \<open>File names\<close>

lemma endswith_iff: "endswith s suf \<longleftrightarrow> (\<exists>pre. s = pre @ suf)"
proof
  assume "endswith s suf"
  then have "s = take (length s - length suf) s @ suf"
    by (metis append_take_drop_id endswith_def)
  then show "\<exists>pre. s = pre @ suf" ..
next
  assume "\<exists>pre. s = pre @ suf"
  then show "endswith s suf" by (auto simp: endswith_def)
qed

lemma last_segment_append:
  assumes "CHR ''.'' \<notin> set e"
  shows "last_segment (b @ CHR ''.'' # e) = e"
proof -
  have all: "takeWhile (\<lambda>c. c \<noteq> CHR ''.'') (rev e) = rev e"
    using assms by (auto simp: takeWhile_eq_all_conv)
  have "last_segment (b @ CHR ''.'' # e) =
          rev (takeWhile (\<lambda>c. c \<noteq> CHR ''.'') (rev e @ CHR ''.'' # rev b))"
    by (simp add: last_segment_def)
  also have "\<dots> = rev (takeWhile (\<lambda>c. c \<noteq> CHR ''.'') (rev e))"
    by (simp add: takeWhile_tail)
  also have "\<dots> = e"
    by (simp only: all rev_rev_ident)
  finally show ?thesis .
qed

lemma endswith_last_segment:
  "endswith s (CHR ''.'' # suf) \<Longrightarrow> CHR ''.'' \<notin> set suf \<Longrightarrow> last_segment s = suf"
  by (auto simp: endswith_iff last_segment_append)

lemma read_file_unsupported:
  assumes "last_segment (filename file) \<notin> set allowed_extensions"
  shows "read_file L file =
    Inl (HTTPException 400
          (''Error reading file: '' @ exc_str L (HTTPException 400 ''Unsupported file format'')))"
proof -
  have "\<not> endswith (filename file) ''.csv''" "\<not> endswith (filename file) ''.xlsx''"
       "\<not> endswith (filename file) ''.xls''"
    using assms endswith_last_segment[of "filename file"]
    by (auto simp: allowed_extensions_def)
  then show ?thesis by (simp add: read_file_def read_file_body_def)
qed

text \<open>
  C10. The extension test of \<open>upload_file_info\<close> lowercases the last dot-separated
  segment of the file name, while \<open>read_file\<close> compares the name with the lowercase
  suffixes as it is. So for an upload that passes the size test and whose last segment is
  an upper- or mixed-case spelling of an allowed extension (it lowercases into the list
  without being in it), the extension test passes and the response is the failure
  envelope carrying the reader's "Unsupported file format" error.
\<close>

theorem uppercase_extension_fails_reading:
  assumes "max_file_size L = Inr max_size"
      and "\<not> too_large (file_size file) max_size"
      and "lower (last_segment (filename file)) \<in> set allowed_extensions"
      and "last_segment (filename file) \<notin> set allowed_extensions"
  shows "upload_file_info L file =
           \<lparr>success = False, message = ''Failed to process file'', data = None,
            error = Some (exc_str L (HTTPException 400 (''Error reading file: '' @
                      exc_str L (HTTPException 400 ''Unsupported file format''))))\<rparr>"
  using assms
  by (simp add: upload_file_info_def upload_file_info_body_def read_file_unsupported)

theorem uppercase_extension_fails_reading_witness:
  "lower (last_segment ''data.CSV'') \<in> set allowed_extensions \<and>
   upload_file_info (sample_world sample_params) (sample_file\<lparr>filename := ''data.CSV''\<rparr>) =
     \<lparr>success = False, message = ''Failed to process file'', data = None,
      error = Some ''400: Error reading file: 400: Unsupported file format''\<rparr>"
proof -
  let ?L = "sample_world sample_params"
  let ?file = "sample_file\<lparr>filename := ''data.CSV''\<rparr>"
  have size: "max_file_size ?L = Inr 50485760"
    by (simp add: max_file_size_def sample_world_def)
  have small: "\<not> too_large (file_size ?file) 50485760"
    by (simp add: too_large_def sample_file_def)
  have seg: "last_segment (filename ?file) = ''CSV''"
    by (simp add: last_segment_def)
  have low: "lower (last_segment (filename ?file)) \<in> set allowed_extensions"
    unfolding seg by (simp add: lower_def py_lower_char_def allowed_extensions_def)
  have up: "last_segment (filename ?file) \<notin> set allowed_extensions"
    unfolding seg by (simp add: allowed_extensions_def)
  have str: "exc_str ?L (HTTPException 400 msg) = ''400: '' @ msg" for msg
    by (simp add: exc_str_def sample_world_def str_int_400)
  show ?thesis
    using uppercase_extension_fails_reading [OF size small low up] low
    by (simp add: str)
qed


section \<open>The endpoints on the sample request\<close>

lemma train_sample:
  "train_svr_model (sample_world sample_params) sample_file text =
     \<lparr>success = True, message = ''SVR model trained successfully'',
      data = Some (SVRResultData
        \<lparr>model_parameters = sample_params\<lparr>feature_columns := Some [''x'']\<rparr>,
        metrics = \<lparr>train_mse = Some (11 / 3), test_mse = Some 9, train_r2 = Some (- (3 / 8)),
                   test_r2 = None, train_mae = Some (5 / 3), test_mae = Some 3\<rparr>,
        result_data_info = \<lparr>total_samples = 4, training_samples = 3, test_samples = 1,
                            features = 1, feature_names = [''x'']\<rparr>,
        result_plots = \<lparr>actual_vs_predicted = ''data:image/png;base64,actual'',
                        residuals = ''data:image/png;base64,residuals''\<rparr>\<rparr>),
      error = None\<rparr>"
proof -
  have parse: "parse_raw (sample_world sample_params) text = Inr sample_params"
    by (simp add: sample_world_def)
  show ?thesis
    by (simp add: train_svr_model_def train_svr_model_body_def parse bind_exn_def
        read_file_sample prepare_sample run_sample)
qed

lemma read_file_size: "read_file L (file\<lparr>file_size := s\<rparr>) = read_file L file"
  by (simp add: read_file_def read_file_body_def)

lemma train_ignores_size:
  "train_svr_model L (file\<lparr>file_size := s\<rparr>) parameters = train_svr_model L file parameters"
  by (simp add: train_svr_model_def train_svr_model_body_def read_file_size)

text \<open>
  C9. The size test is in \<open>upload_file_info\<close> only. On an upload of 60000000 bytes, above
  the default limit of 50485760, \<open>upload_file_info\<close> answers "File too large", while
  \<open>train_svr_model\<close>, which never reads \<open>file.size\<close>, reads the same file, runs the
  pipeline and answers with success.
\<close>

theorem oversize_upload_is_trained:
  "upload_file_info (sample_world sample_params) (sample_file\<lparr>file_size := Some 60000000\<rparr>) =
     \<lparr>success = False, message = ''File too large'', data = None,
      error = Some ''File size exceeds 50485760 bytes''\<rparr> \<and>
   success (train_svr_model (sample_world sample_params)
              (sample_file\<lparr>file_size := Some 60000000\<rparr>) sample_text) = True"
proof -
  have size: "max_file_size (sample_world sample_params) = Inr 50485760"
    by (simp add: max_file_size_def sample_world_def)
  show ?thesis
    by (simp add: upload_file_info_def upload_file_info_body_def size too_large_def
        str_int_max_size train_ignores_size train_sample)
qed

section \<open>Feature selection\<close>

lemma select_numeric_names: "set (map fst (select_numeric df feature_cols)) \<subseteq> set feature_cols"
  by (auto simp: select_numeric_def numeric_column_def split: option.splits column.splits)

text \<open>The default path: without an explicit list the target is not among the features.\<close>

lemma default_features_exclude_target:
  assumes "feature_columns params = None \<or> feature_columns params = Some []"
      and "prepare_data params df = Inr (X, y)"
  shows "target_column params \<notin> set (map fst X)"
proof -
  have fc: "feature_cols_of params df =
              filter (\<lambda>col. col \<noteq> target_column params) (df_columns df)"
    using assms(1) by (auto simp: feature_cols_of_def)
  have "X = select_numeric df (feature_cols_of params df)"
    using assms(2) by (auto simp: prepare_data_def Let_def split: option.splits if_splits)
  then have "set (map fst X) \<subseteq> set (feature_cols_of params df)"
    using select_numeric_names by simp
  then show ?thesis unfolding fc by auto
qed

lemma prepare_xy:
  "prepare_data (sample_params\<lparr>feature_columns := Some [''x'', ''y'']\<rparr>) sample_frame =
     Inr ([(''x'', [Some 1, Some 2, Some 3, Some 4]), (''y'', [Some 2, Some 4, Some 6, Some 8])],
          Numeric [Some 2, Some 4, Some 6, Some 8])"
  by (simp add: prepare_data_def sample_params_def sample_frame_def feature_cols_of_def
      missing_cols_of_def df_columns_def select_numeric_def numeric_column_def)

lemma run_xy:
  "map_sum id (\<lambda>res. feature_names (result_data_info res))
     (run_pipeline (sample_world p) (sample_params\<lparr>feature_columns := Some [''x'', ''y'']\<rparr>) sample_frame
       [(''x'', [Some 1, Some 2, Some 3, Some 4]), (''y'', [Some 2, Some 4, Some 6, Some 8])]
       (Numeric [Some 2, Some 4, Some 6, Some 8])) = Inr [''x'', ''y'']"
proof -
  let ?p = "sample_params\<lparr>feature_columns := Some [''x'', ''y'']\<rparr>"
  have params: "test_size ?p = Some float_0_2" "random_state ?p = Some 42"
    "gamma ?p = Some ''scale''"
    by (simp_all add: sample_params_def)
  have frame: "nrows sample_frame = 4"
    by (simp add: sample_frame_def)
  show ?thesis
    unfolding run_pipeline_def Let_def params frame split_sample
    by (simp add: impute_features_def impute_target_def fillna_mean_def fillna_def
        take_rows_matrix_def take_rows_def SVR_fit_def params sample_world_def
        scaler_transform_def scaler_fit_def scaled_entry_None_iff present_def
        metric_defs render_plots_def create_plot_base64_def)
qed

text \<open>
  C2. An explicit feature list is taken as it is. The request with target \<open>y\<close> and
  \<open>feature_columns = ["x", "y"]\<close> passes every validation, reaches model fitting, succeeds,
  and reports \<open>y\<close> among the feature columns of the feature matrix.
\<close>

theorem target_among_features:
  "target_column (sample_params\<lparr>feature_columns := Some [''x'', ''y'']\<rparr>) = ''y'' \<and>
   success (train_svr_model (sample_world (sample_params\<lparr>feature_columns := Some [''x'', ''y'']\<rparr>))
              sample_file sample_text) = True \<and>
   feature_names_of
     (train_svr_model (sample_world (sample_params\<lparr>feature_columns := Some [''x'', ''y'']\<rparr>))
              sample_file sample_text) = Some [''x'', ''y'']"
proof -
  let ?p = "sample_params\<lparr>feature_columns := Some [''x'', ''y'']\<rparr>"
  have parse: "parse_raw (sample_world ?p) t = Inr ?p" for t
    by (simp add: sample_world_def)
  obtain res where res: "run_pipeline (sample_world ?p) ?p sample_frame
       [(''x'', [Some 1, Some 2, Some 3, Some 4]), (''y'', [Some 2, Some 4, Some 6, Some 8])]
       (Numeric [Some 2, Some 4, Some 6, Some 8]) = Inr res"
       and names: "feature_names (result_data_info res) = [''x'', ''y'']"
    using run_xy[of ?p] by (auto simp: map_sum_def split: sum.splits)
  have target: "target_column ?p = ''y''"
    by (simp add: sample_params_def)
  have response: "train_svr_model (sample_world ?p) sample_file sample_text =
      \<lparr>success = True, message = ''SVR model trained successfully'',
       data = Some (SVRResultData res), error = None\<rparr>"
    by (simp add: train_svr_model_def train_svr_model_body_def parse bind_exn_def
        read_file_sample prepare_xy res)
  show ?thesis
    unfolding response target by (simp add: feature_names_of_def result_of_def names)
qed


section \<open>Validation of the feature columns\<close>






section \<open>Stages of the endpoints\<close>

lemma bind_exn_Inr_iff:
  "bind_exn m f = Inr r \<longleftrightarrow> (\<exists>x. m = Inr x \<and> f x = Inr r)"
  by (cases m) (simp_all add: bind_exn_def)

lemma bind_exn_Inl [simp]: "bind_exn (Inl e) f = Inl e"
  by (simp add: bind_exn_def)

lemma bind_exn_Inr [simp]: "bind_exn (Inr x) f = f x"
  by (simp add: bind_exn_def)

lemma prepare_data_failure:
  "prepare_data params df = Inl response \<Longrightarrow>
     \<not> success response \<and> error response \<noteq> None \<and> message response \<noteq> [] \<and> data response = None"
  by (auto simp: prepare_data_def Let_def split: option.splits if_splits)

lemma run_pipeline_stages:
  assumes "run_pipeline L params df X0 y0 = Inr res"
  shows "\<exists>y train test X_train X_test y_train y_test predict y_train_pred y_test_pred ms pl.
      impute_target L y0 = Inr y
    \<and> train_test_split L (nrows df) (test_size params) (random_state params) = Inr (train, test)
    \<and> take_rows_matrix L (map snd (impute_features X0)) train = Inr X_train
    \<and> take_rows_matrix L (map snd (impute_features X0)) test = Inr X_test
    \<and> take_rows L y train = Inr y_train
    \<and> take_rows L y test = Inr y_test
    \<and> SVR_fit L params (scaler_transform (scaler_fit X_train) X_train) y_train = Inr predict
    \<and> predict (scaler_transform (scaler_fit X_train) X_train) = Inr y_train_pred
    \<and> predict (scaler_transform (scaler_fit X_train) X_test) = Inr y_test_pred
    \<and> evaluate L y_train y_train_pred y_test y_test_pred = Inr ms
    \<and> render_plots L y_train y_train_pred y_test y_test_pred ms = Inr pl
    \<and> res = \<lparr>model_parameters = params\<lparr>feature_columns := Some (map fst (impute_features X0))\<rparr>,
             metrics = ms,
             result_data_info =
               \<lparr>total_samples = nrows df, training_samples = length train,
                test_samples = length test, features = length (impute_features X0),
                feature_names = map fst (impute_features X0)\<rparr>,
             result_plots = pl\<rparr>"
  using assms
  by (auto simp: run_pipeline_def Let_def bind_exn_Inr_iff split: prod.splits)

lemma train_success:
  assumes "success (train_svr_model L file parameters)"
  shows "\<exists>params df X y res.
      parse_raw L parameters = Inr params \<and> read_file L file = Inr df
    \<and> prepare_data params df = Inr (X, y) \<and> run_pipeline L params df X y = Inr res
    \<and> train_svr_model L file parameters =
        \<lparr>success = True, message = ''SVR model trained successfully'',
         data = Some (SVRResultData res), error = None\<rparr>"
  using assms prepare_data_failure
  by (fastforce simp: train_svr_model_def train_svr_model_body_def bind_exn_def
      split: sum.splits prod.splits)


section \<open>The gamma hyperparameter\<close>

lemma prepare_sample_default:
  assumes "target_column p = ''y''" and "feature_columns p = None"
  shows "prepare_data p sample_frame =
     Inr ([(''x'', [Some 1, Some 2, Some 3, Some 4])], Numeric [Some 2, Some 4, Some 6, Some 8])"
  by (simp add: prepare_data_def assms sample_frame_def feature_cols_of_def
      missing_cols_of_def df_columns_def select_numeric_def numeric_column_def)

lemma run_gamma_number:
  "run_pipeline (sample_world q) (sample_params\<lparr>gamma := Some ''0.1''\<rparr>) sample_frame
     [(''x'', [Some 1, Some 2, Some 3, Some 4])] (Numeric [Some 2, Some 4, Some 6, Some 8]) =
   Inl (PyException ''ValueError'' ''SVR.fit'')"
proof -
  let ?p = "sample_params\<lparr>gamma := Some ''0.1''\<rparr>"
  have params: "test_size ?p = Some float_0_2" "random_state ?p = Some 42"
    "gamma ?p = Some ''0.1''"
    by (simp_all add: sample_params_def)
  have frame: "nrows sample_frame = 4"
    by (simp add: sample_frame_def)
  show ?thesis
    unfolding run_pipeline_def Let_def params frame split_sample
    by (simp add: impute_features_def impute_target_def fillna_mean_def fillna_def
        take_rows_matrix_def take_rows_def SVR_fit_def params sample_world_def)
qed

lemma train_gamma_number:
  "train_svr_model (sample_world (sample_params\<lparr>gamma := Some ''0.1''\<rparr>)) sample_file sample_text =
     \<lparr>success = False, message = ''Failed to train SVR model'', data = None,
      error = Some ''SVR.fit''\<rparr>"
proof -
  let ?p = "sample_params\<lparr>gamma := Some ''0.1''\<rparr>"
  have parse: "parse_raw (sample_world ?p) t = Inr ?p" for t
    by (simp add: sample_world_def)
  have prep: "prepare_data ?p sample_frame =
     Inr ([(''x'', [Some 1, Some 2, Some 3, Some 4])], Numeric [Some 2, Some 4, Some 6, Some 8])"
    by (rule prepare_sample_default) (simp_all add: sample_params_def)
  show ?thesis
    by (simp add: train_svr_model_def train_svr_model_body_def parse read_file_sample prep
        run_gamma_number exc_str_def)
qed

lemma train_rejected:
  "train_svr_model ((sample_world sample_params)\<lparr>parse_raw := rejecting_parse\<rparr>) sample_file sample_text =
     \<lparr>success = False, message = ''Failed to train SVR model'', data = None,
      error = Some ''gamma: str type expected''\<rparr>"
  by (simp add: train_svr_model_def train_svr_model_body_def rejecting_parse_def exc_str_def)

text \<open>
  C7, as stated, fails on a request whose \<open>gamma\<close> is the number 0.1. The field is declared
  \<open>gamma: Optional[str]\<close>: either the validation of the request coerces the number to
  the string \<open>0.1\<close>, which the estimator refuses, or it rejects the request. Both
  responses have \<open>success = False\<close>.
\<close>

theorem numeric_gamma_fails:
  "success (train_svr_model (sample_world (sample_params\<lparr>gamma := Some ''0.1''\<rparr>))
              sample_file sample_text) = False \<and>
   success (train_svr_model ((sample_world sample_params)\<lparr>parse_raw := rejecting_parse\<rparr>)
              sample_file sample_text) = False"
  by (simp add: train_gamma_number train_rejected)

lemma SVR_fit_gamma:
  "SVR_fit L params X y = Inr predict \<Longrightarrow> gamma params = Some ''scale'' \<or> gamma params = Some ''auto''"
  by (auto simp: SVR_fit_def split: option.splits if_splits)

text \<open>
  C7, amended. The \<open>gamma\<close> of a training request is a string, handed to the estimator as
  it is; every request that trains successfully has \<open>gamma\<close> equal to one of the policy
  names \<open>scale\<close> and \<open>auto\<close>. So a request with a numeric \<open>gamma\<close> never trains
  successfully.
\<close>

theorem successful_training_has_policy_gamma:
  assumes "success (train_svr_model L file parameters)"
  shows "\<exists>params. parse_raw L parameters = Inr params \<and>
           (gamma params = Some ''scale'' \<or> gamma params = Some ''auto'')"
proof -
  from train_success [OF assms] obtain params df X y res
    where parse: "parse_raw L parameters = Inr params"
      and run: "run_pipeline L params df X y = Inr res"
    by blast
  from run_pipeline_stages [OF run] obtain X_train y_train predict
    where "SVR_fit L params (scaler_transform (scaler_fit X_train) X_train) y_train = Inr predict"
    by blast
  then have "gamma params = Some ''scale'' \<or> gamma params = Some ''auto''"
    by (rule SVR_fit_gamma)
  with parse show ?thesis by blast
qed

theorem successful_training_has_policy_gamma_witness:
  "success (train_svr_model (sample_world sample_params) sample_file sample_text) \<and>
   (\<exists>params. parse_raw (sample_world sample_params) sample_text = Inr params \<and>
           (gamma params = Some ''scale'' \<or> gamma params = Some ''auto''))"
proof -
  have ok: "success (train_svr_model (sample_world sample_params) sample_file sample_text)"
    by (simp add: train_sample)
  from successful_training_has_policy_gamma [OF ok] ok show ?thesis by blast
qed


section \<open>Errors at the request boundary\<close>

text \<open>A stage that raises makes the pipeline raise the same exception.\<close>

lemma pipeline_stage_failures:
  "impute_target L y0 = Inl e \<Longrightarrow> run_pipeline L params df X0 y0 = Inl e"
  "impute_target L y0 = Inr y \<Longrightarrow>
     train_test_split L (nrows df) (test_size params) (random_state params) = Inl e \<Longrightarrow>
     run_pipeline L params df X0 y0 = Inl e"
  by (simp_all add: run_pipeline_def)




section \<open>The size of the test partition\<close>

lemma round_step_le:
  fixes M B :: int and k :: nat
  assumes "M \<le> B * 2 ^ k"
  shows "(if 2 ^ (k - 1) < M mod 2 ^ k \<or> (M mod 2 ^ k = 2 ^ (k - 1) \<and> odd (M div 2 ^ k))
          then M div 2 ^ k + 1 else M div 2 ^ k) \<le> B"
proof -
  have pos: "(0::int) < 2 ^ k" by simp
  have "M div 2 ^ k \<le> (B * 2 ^ k) div 2 ^ k"
    using assms pos by (rule zdiv_mono1)
  then have q: "M div 2 ^ k \<le> B" by simp
  show ?thesis
  proof (cases "M div 2 ^ k = B")
    case True
    have eq: "M = B * 2 ^ k + M mod 2 ^ k"
      using True by (metis div_mult_mod_eq)
    have nn: "0 \<le> M mod 2 ^ k"
      using pos by simp
    from eq nn assms have "M mod 2 ^ k = 0"
      by linarith
    moreover have "(0::int) < 2 ^ (k - 1)" by simp
    ultimately show ?thesis using True by simp
  next
    case False
    with q show ?thesis by simp
  qed
qed

lemma ceil_div_le:
  fixes q B :: int and j :: nat
  assumes "q \<le> B * 2 ^ j"
  shows "- ((- q) div 2 ^ j) \<le> B"
proof -
  have 1: "((- B) * 2 ^ j) div 2 ^ j \<le> (- q) div 2 ^ j"
    using assms by (intro zdiv_mono1) simp_all
  have 2: "((- B) * 2 ^ j) div (2 ^ j :: int) = - B"
    by (rule nonzero_mult_div_cancel_right) simp
  from 1 2 show ?thesis by linarith
qed

lemma ceil_div_nonneg:
  fixes q :: int and j :: nat
  assumes "0 \<le> q"
  shows "0 \<le> - ((- q) div 2 ^ j)"
proof -
  have "(- q) div 2 ^ j \<le> 0 div 2 ^ j"
    using assms by (intro zdiv_mono1) simp_all
  then show ?thesis by simp
qed

lemma n_test_bounds:
  assumes pos: "\<not> double_le_zero f" and lt1: "\<not> double_ge_one f" and small: "n < 2 ^ 53"
  shows "0 \<le> ceil_double (float_mul_int f n) \<and> ceil_double (float_mul_int f n) \<le> int n"
proof -
  obtain m e where f: "f = Double m e" by (cases f)
  from pos have m: "0 < m" by (simp add: f double_le_zero_def)
  from lt1 m have e: "e < 0" and mlt: "m < 2 ^ nat (- e)"
    by (auto simp: f double_ge_one_def split: if_splits)
  define E where "E = nat (- e)"
  define M where "M = m * int n"
  have M0: "0 \<le> M" using m by (simp add: M_def)
  have "m * int n \<le> 2 ^ E * int n"
    using mlt by (intro mult_right_mono) (simp_all add: E_def)
  then have ME: "M \<le> int n * 2 ^ E" by (simp add: M_def mult.commute)
  from small have "int n < int (2 ^ 53)" by (simp only: of_nat_less_iff)
  then have n53: "int n < 2 ^ 53" by simp
  define k where "k = bitlen \<bar>M\<bar> - 53"
  show ?thesis
  proof (cases "k \<le> 0")
    case True
    then have "float_mul_int f n = Double M e"
      by (simp add: float_mul_int_def f round53_def k_def M_def Let_def)
    then have "ceil_double (float_mul_int f n) = - ((- M) div 2 ^ E)"
      using e by (simp add: ceil_double_def E_def)
    then show ?thesis using ceil_div_le [OF ME] ceil_div_nonneg [OF M0] by simp
  next
    case False
    define K where "K = nat k"
    from False have K: "k = int K" "0 < K" by (simp_all add: K_def)
    define q where "q = (if 2 ^ (K - 1) < M mod 2 ^ K \<or> (M mod 2 ^ K = 2 ^ (K - 1) \<and> odd (M div 2 ^ K))
          then M div 2 ^ K + 1 else M div 2 ^ K)"
    have bl: "bitlen M = 53 + k" using M0 by (simp add: k_def)
    then have Mpos: "0 < M" using False M0 bitlen_eq_zero_iff [of M] by (cases "M = 0") auto
    have q0: "0 \<le> q"
      using M0 by (auto simp: q_def pos_imp_zdiv_nonneg_iff)
    have abs: "\<bar>m * int n\<bar> = M" using M0 by (simp add: M_def)
    have blK: "bitlen M = 53 + int K" using bl K by simp
    have K1: "nat (int K - 1) = K - 1" by simp
    have sg: "sgn (m * int n) = 1" using Mpos by (simp add: M_def)
    have "round53 (m * int n) e = Double q (e + int K)"
      unfolding round53_def abs blK Let_def sg q_def
      using K(2) by (simp add: K1 M_def)
    then have r: "float_mul_int f n = Double q (e + k)"
      by (simp add: float_mul_int_def f K)
    show ?thesis
    proof (cases "0 \<le> e + k")
      case True
      have "2 ^ nat (bitlen M - 1) \<le> M"
        using bitlen_bounds [OF Mpos] by simp
      then have "(2::int) ^ (52 + K) \<le> M"
        by (simp add: bl K nat_add_distrib)
      also have "M \<le> int n * 2 ^ E" by (rule ME)
      also have "\<dots> < 2 ^ 53 * 2 ^ E"
        using n53 by (intro mult_strict_right_mono) simp_all
      finally have "(2::int) ^ (52 + K) < 2 ^ (53 + E)"
        by (simp add: power_add)
      then have "52 + K < 53 + E" by simp
      then have "K \<le> E" by simp
      with True e have KE: "K = E" and ek: "e + k = 0"
        by (simp_all add: K E_def)
      have "q \<le> int n"
        unfolding q_def using ME by (intro round_step_le) (simp add: KE)
      then show ?thesis using q0 by (simp add: r ceil_double_def ek)
    next
      case False
      define j where "j = nat (- (e + k))"
      from False e have EjK: "E = j + K" by (simp add: E_def j_def K)
      have "M \<le> (int n * 2 ^ j) * 2 ^ K"
        using ME by (simp add: EjK power_add mult.assoc)
      then have "q \<le> int n * 2 ^ j"
        unfolding q_def by (rule round_step_le)
      then have "- ((- q) div 2 ^ j) \<le> int n" by (rule ceil_div_le)
      moreover have "0 \<le> - ((- q) div 2 ^ j)" using q0 by (rule ceil_div_nonneg)
      ultimately show ?thesis
        using False by (simp add: r ceil_double_def j_def)
    qed
  qed
qed


section \<open>The partition\<close>

lemma ceil_double_ceiling: "ceil_double f = \<lceil>double_val f\<rceil>"
proof (cases f)
  case (Double m e)
  show ?thesis
  proof (cases "0 \<le> e")
    case True
    have "\<lceil>real_of_int m * 2 ^ nat e\<rceil> = \<lceil>real_of_int (m * 2 ^ nat e)\<rceil>"
      by simp
    then show ?thesis
      using True by (simp add: Double ceil_double_def double_val_def del: of_int_mult)
  next
    case False
    have "\<lceil>real_of_int m / real_of_int (2 ^ nat (- e))\<rceil> = - ((- m) div 2 ^ nat (- e))"
      by (rule ceiling_divide_eq_div)
    then show ?thesis
      using False by (simp add: Double ceil_double_def double_val_def)
  qed
qed

lemma bitlen_eleven: "bitlen 39631676720860367 = 56"
  by code_simp

lemma n_test_eleven: "n_test_of (Some float_0_2) 11 = 3"
  by (simp add: n_test_of_def float_0_2_def float_mul_int_def round53_def bitlen_eleven
      ceil_double_def Let_def)

text \<open>
  C1, as stated, fails on the size of the test partition: it is the ceiling, not the
  rounding, of the product. With 11 rows and \<open>test_size = 0.2\<close> the product is 2.2; the
  split takes 3 test rows and 8 training rows, while \<open>round(11 * 0.2) = 2\<close>.
\<close>

theorem test_size_is_ceiling_not_round:
  "train_test_split (sample_world sample_params) 11 (Some float_0_2) (Some 42) =
     Inr ([7, 6, 5, 4, 3, 2, 1, 0], [10, 9, 8]) \<and>
   round (11 * double_val float_0_2) = 2"
proof -
  have v: "validate_shuffle_split L 11 (Some float_0_2) = Inr (8, 3)" for L
    by (simp add: validate_shuffle_split_def n_test_eleven float_0_2_range Let_def)
  have s: "train_test_split (sample_world sample_params) 11 (Some float_0_2) (Some 42) =
     Inr ([7, 6, 5, 4, 3, 2, 1, 0], [10, 9, 8])"
    by (simp add: train_test_split_def v rng_permutation_def sample_world_def upt_rec)
  have r: "round (11 * double_val float_0_2) = 2"
    by (simp add: double_val_def float_0_2_def round_def)
  from s r show ?thesis by simp
qed

text \<open>
  C1, amended. For a split that succeeds on \<open>N\<close> rows (fewer than \<open>2 ^ 53\<close>) with an integer
  seed, the generator's output being a permutation of the row indices: the two partitions
  have \<open>N\<close> rows together, the test partition has \<open>ceil(fl(test_size * N))\<close> rows, where
  \<open>fl\<close> is the binary64 product and a missing \<open>test_size\<close> is 0.25, the partitions are
  disjoint and cover all rows, and the partition is the same in every run: it is a
  function of the seed, the row count and the fraction, and does not depend on the
  entropy source.
\<close>

theorem split_partition:
  assumes split: "train_test_split L N ts (Some seed) = Inr (train, test)"
      and perm: "distinct (permutation L seed N)" "set (permutation L seed N) = {..<N}"
      and small: "N < 2 ^ 53"
  shows "length train + length test = N
       \<and> int (length test) = \<lceil>double_val (float_mul_int (case ts of None \<Rightarrow> Double 1 (- 2) | Some f \<Rightarrow> f) N)\<rceil>
       \<and> set train \<union> set test = {..<N} \<and> set train \<inter> set test = {}
       \<and> (\<forall>g. train_test_split (L\<lparr>entropy_permutation := g\<rparr>) N ts (Some seed) = Inr (train, test))"
proof -
  define f where "f = (case ts of None \<Rightarrow> Double 1 (- 2) | Some f \<Rightarrow> f)"
  define n_test where "n_test = n_test_of ts N"
  define p where "p = permutation L seed N"
  from split have range: "\<not> double_le_zero f" "\<not> double_ge_one f"
    and tr: "train = take (nat (int N - n_test)) (drop (nat n_test) p)"
    and te: "test = take (nat n_test) p"
    by (auto simp: train_test_split_def validate_shuffle_split_def rng_permutation_def Let_def
        f_def n_test_def p_def split: sum.splits if_splits)
  have nt: "n_test = ceil_double (float_mul_int f N)"
    by (simp add: n_test_def n_test_of_def f_def)
  from n_test_bounds [OF range small] have b: "0 \<le> n_test" "n_test \<le> int N"
    by (simp_all add: nt)
  have len: "length p = N"
    using perm distinct_card [of p] by (simp add: p_def)
  have ltest: "length test = nat n_test"
    using b by (simp add: te len)
  have train': "train = drop (nat n_test) p"
    using b by (simp add: tr len nat_diff_distrib)
  have app: "p = test @ train"
    by (simp add: te train')
  have sets: "set train \<union> set test = {..<N}"
    using perm(2) by (auto simp: app p_def [symmetric])
  have disj: "set train \<inter> set test = {}"
    using perm(1) by (auto simp: app p_def [symmetric])
  have total: "length train + length test = N"
    using len by (simp add: app)
  have size: "int (length test) = \<lceil>double_val (float_mul_int f N)\<rceil>"
    using b by (simp add: ltest nt ceil_double_ceiling)
  have det: "train_test_split (L\<lparr>entropy_permutation := g\<rparr>) N ts (Some seed) =
               train_test_split L N ts (Some seed)" for g
    by (simp add: train_test_split_def validate_shuffle_split_def rng_permutation_def Let_def)
  from total size sets disj det split show ?thesis
    by (simp add: f_def)
qed

theorem split_partition_witness:
  "train_test_split (sample_world sample_params) 4 (Some float_0_2) (Some 42) = Inr ([2, 1, 0], [3])
   \<and> length [2, 1, 0 :: nat] + length [3 :: nat] = 4
   \<and> int (length [3 :: nat]) = \<lceil>double_val (float_mul_int float_0_2 4)\<rceil>
   \<and> set [2, 1, 0 :: nat] \<union> set [3] = {..<4} \<and> set [2, 1, 0 :: nat] \<inter> set [3] = {}"
proof -
  let ?L = "sample_world sample_params"
  have d: "distinct (permutation ?L 42 4)"
    by (simp add: sample_world_def)
  have s: "set (permutation ?L 42 4) = {..<4}"
    by (auto simp: sample_world_def)
  have small: "(4::nat) < 2 ^ 53"
    by simp
  from split_partition [OF split_sample d s small] split_sample show ?thesis
    by simp
qed


section \<open>Input validation of the estimator\<close>

lemma take_rows_matrix_length: "take_rows_matrix L M idx = Inr X \<Longrightarrow> length X = length M"
  by (auto simp: take_rows_matrix_def split: if_splits)

lemma scaler_transform_nth:
  assumes "i < length X" "length X' = length X"
  shows "scaler_transform (scaler_fit X) X' ! i =
           map (scale_value (mean (X ! i)) (column_scale (X ! i))) (X' ! i)"
  using assms by (simp add: scaler_transform_def scaler_fit_def)

lemma scaler_transform_length:
  "length X' = length X \<Longrightarrow> length (scaler_transform (scaler_fit X) X') = length X"
  by (simp add: scaler_transform_def scaler_fit_def)

lemma SVR_fit_complete:
  assumes "SVR_fit L params X y = Inr predict"
  shows "X \<noteq> [] \<and> (\<forall>xs\<in>set X. xs \<noteq> [] \<and> None \<notin> set xs) \<and> None \<notin> set y"
  using assms by (auto simp: SVR_fit_def list_ex_iff split: option.splits if_splits)

lemma fillna_None: "fillna xs None = xs"
  by (induction xs) (auto simp: fillna_def split: option.splits)

lemma take_rows_matrix_nth:
  assumes "take_rows_matrix L M idx = Inr X" "i < length M"
  shows "X ! i = map (\<lambda>j. (M ! i) ! j) idx \<and> (\<forall>j\<in>set idx. j < length (M ! i))"
proof -
  from assms(2) have "M ! i \<in> set M" by simp
  with assms show ?thesis
    by (auto simp: take_rows_matrix_def list_all_iff split: if_splits)
qed

lemma scaled_column_complete:
  assumes fit: "SVR_fit L params (scaler_transform (scaler_fit X) X) y = Inr predict"
    and i: "i < length X"
  shows "X ! i \<noteq> [] \<and> None \<notin> set (X ! i)"
proof -
  have "scaler_transform (scaler_fit X) X ! i \<in> set (scaler_transform (scaler_fit X) X)"
    using i by (simp add: scaler_transform_length)
  with SVR_fit_complete [OF fit]
  have "map (scale_value (mean (X ! i)) (column_scale (X ! i))) (X ! i) \<noteq> []"
    and "None \<notin> set (map (scale_value (mean (X ! i)) (column_scale (X ! i))) (X ! i))"
    unfolding scaler_transform_nth [OF i refl] by blast+
  then show ?thesis
    using scale_value_None_iff [of "mean (X ! i)" "column_scale (X ! i)" None]
    by force
qed

lemma impute_all_missing:
  assumes "i < length X0" "present (snd (X0 ! i)) = []"
  shows "map snd (impute_features X0) ! i = snd (X0 ! i)"
  using assms by (simp add: impute_features_def split_def fillna_mean_def mean_def fillna_None)

lemma all_missing_feature_rejected:
  assumes i: "i < length X0" and miss: "present (snd (X0 ! i)) = []"
  shows "\<exists>e. run_pipeline L params df X0 y0 = Inl e"
proof (cases "run_pipeline L params df X0 y0")
  case (Inr res)
  from run_pipeline_stages [OF Inr] obtain train X_train and y_train :: "real option list" and predict
    where xtr: "take_rows_matrix L (map snd (impute_features X0)) train = Inr X_train"
      and fit: "SVR_fit L params (scaler_transform (scaler_fit X_train) X_train) y_train = Inr predict"
    by blast
  have iM: "i < length (map snd (impute_features X0))"
    using i by (simp add: impute_features_def)
  have len: "i < length X_train"
    using take_rows_matrix_length [OF xtr] iM by simp
  from take_rows_matrix_nth [OF xtr iM]
  have col: "X_train ! i = map (\<lambda>j. snd (X0 ! i) ! j) train"
    and rng: "\<forall>j\<in>set train. j < length (snd (X0 ! i))"
    unfolding impute_all_missing [OF i miss] by simp_all
  from scaled_column_complete [OF fit len]
  have ne: "X_train ! i \<noteq> []" and nn: "None \<notin> set (X_train ! i)"
    by simp_all
  from ne col obtain j where j: "j \<in> set train"
    by (cases train) auto
  with rng have "snd (X0 ! i) ! j \<in> set (snd (X0 ! i))"
    by simp
  with miss have "snd (X0 ! i) ! j = None"
    by (simp add: present_Nil_iff)
  with col j have "None \<in> set (X_train ! i)"
    by force
  with nn show ?thesis by simp
qed blast

lemma all_missing_target_rejected:
  assumes miss: "present ys = []"
  shows "\<exists>e. run_pipeline L params df X0 (Numeric ys) = Inl e"
proof (cases "run_pipeline L params df X0 (Numeric ys)")
  case (Inr res)
  from run_pipeline_stages [OF Inr] obtain y train X_train y_train predict
    where imp: "impute_target L (Numeric ys) = Inr y"
      and xtr: "take_rows_matrix L (map snd (impute_features X0)) train = Inr X_train"
      and ytr: "take_rows L y train = Inr y_train"
      and fit: "SVR_fit L params (scaler_transform (scaler_fit X_train) X_train) y_train = Inr predict"
    by blast
  from imp miss have y: "y = ys"
    by (simp add: impute_target_def fillna_mean_def mean_def fillna_None)
  from ytr have ytrain: "y_train = map (\<lambda>j. ys ! j) train" and rng: "\<forall>j\<in>set train. j < length ys"
    by (auto simp: take_rows_def y list_all_iff split: if_splits)
  from SVR_fit_complete [OF fit] have nn: "None \<notin> set y_train"
    and X: "scaler_transform (scaler_fit X_train) X_train \<noteq> []"
    by simp_all
  have train: "train = []"
  proof (rule ccontr)
    assume "train \<noteq> []"
    then obtain j where j: "j \<in> set train"
      by (cases train) auto
    with rng have "ys ! j \<in> set ys" by simp
    with miss have "ys ! j = None" by (simp add: present_Nil_iff)
    with ytrain j have "None \<in> set y_train" by force
    with nn show False by simp
  qed
  from X have len: "0 < length X_train"
    by (cases X_train) (simp_all add: scaler_transform_def)
  then have iM: "0 < length (map snd (impute_features X0))"
    using take_rows_matrix_length [OF xtr] by simp
  from take_rows_matrix_nth [OF xtr iM] have "X_train ! 0 = []"
    by (simp add: train)
  with scaled_column_complete [OF fit len] show ?thesis by simp
qed blast

lemma train_pipeline_failure:
  assumes "parse_raw L parameters = Inr params" "read_file L file = Inr df"
    "prepare_data params df = Inr (X, y)" "run_pipeline L params df X y = Inl e"
  shows "train_svr_model L file parameters =
     \<lparr>success = False, message = ''Failed to train SVR model'', data = None,
      error = Some (exc_str L e)\<rparr>"
  using assms by (simp add: train_svr_model_def train_svr_model_body_def)


section \<open>Imputation\<close>

lemma fillna_Some: "None \<notin> set (fillna xs (Some m))"
  by (auto simp: fillna_def split: option.splits)

lemma fillna_mean_cases:
  "(present xs \<noteq> [] \<longrightarrow>
      fillna_mean xs =
        map (\<lambda>x. case x of None \<Rightarrow> Some (sum_list (present xs) / real (length (present xs)))
                  | Some a \<Rightarrow> Some a) xs
      \<and> None \<notin> set (fillna_mean xs))
   \<and> (present xs = [] \<longrightarrow> fillna_mean xs = xs)"
  using fillna_Some [of xs]
  by (auto simp: fillna_mean_def mean_def fillna_None) (simp add: fillna_def)

lemma read_file_gappy: "read_file (sample_world p) gappy_file = Inr gappy_frame"
  by (simp add: read_file_def read_file_body_def gappy_file_def endswith_def sample_world_def)

lemma prepare_gappy:
  "prepare_data sample_params gappy_frame =
     Inr ([(''x'', [None, None, None, None])], Numeric [Some 2, Some 4, Some 6, Some 8])"
  by (simp add: prepare_data_def sample_params_def gappy_frame_def feature_cols_of_def
      missing_cols_of_def df_columns_def select_numeric_def numeric_column_def)

lemma run_gappy:
  "run_pipeline (sample_world sample_params) sample_params gappy_frame
     [(''x'', [None, None, None, None])] (Numeric [Some 2, Some 4, Some 6, Some 8]) =
   Inl (PyException ''ValueError'' ''SVR.fit'')"
proof -
  have params: "test_size sample_params = Some float_0_2" "random_state sample_params = Some 42"
    "gamma sample_params = Some ''scale''"
    by (simp_all add: sample_params_def)
  have frame: "nrows gappy_frame = 4"
    by (simp add: gappy_frame_def)
  show ?thesis
    unfolding run_pipeline_def Let_def params frame split_sample
    by (simp add: impute_features_def impute_target_def fillna_mean_def fillna_def
        take_rows_matrix_def take_rows_def SVR_fit_def params sample_world_def
        scaler_transform_def scaler_fit_def scale_value_def mean_def present_def)
qed

text \<open>
  C3, as stated, fails on a column that is entirely missing: its mean is NaN, \<open>fillna\<close>
  with NaN changes nothing, and the imputation returns the column as it is, for a feature
  column and for the target vector alike. Nothing is raised there: the code has no
  \<open>DegenerateColumnError\<close>. The missing entries travel through the split and the scaler
  to the estimator, whose \<open>ValueError\<close> the endpoint reports as a failed training.
\<close>

theorem all_missing_column_stays_missing:
  "impute_features [(''x'', [None, None, None])] = [(''x'', [None, None, None])]
 \<and> impute_target (sample_world sample_params) (Numeric [None, None, None]) = Inr [None, None, None]
 \<and> train_svr_model (sample_world sample_params) gappy_file sample_text =
     \<lparr>success = False, message = ''Failed to train SVR model'', data = None,
      error = Some ''SVR.fit''\<rparr>"
proof -
  have parse: "parse_raw (sample_world sample_params) sample_text = Inr sample_params"
    by (simp add: sample_world_def)
  have "train_svr_model (sample_world sample_params) gappy_file sample_text =
     \<lparr>success = False, message = ''Failed to train SVR model'', data = None,
      error = Some ''SVR.fit''\<rparr>"
    by (simp add: train_svr_model_def train_svr_model_body_def parse bind_exn_def
        read_file_gappy prepare_gappy run_gappy exc_str_def)
  then show ?thesis
    by (simp add: impute_features_def impute_target_def fillna_mean_def fillna_def mean_def
        present_def)
qed

text \<open>
  C3, amended. The imputation keeps the column names; in a feature column, and in a
  numeric target vector, with at least one entry present (\<open>present xs \<noteq> []\<close>) it replaces
  each missing entry with the mean of the present entries, after which nothing is
  missing; a column with no entry present is returned unchanged, and the imputation
  raises nothing. A request with such a feature column or such a target does not
  succeed: a later stage raises, and the response is the envelope of a failed training
  with the text of that exception.
\<close>

theorem imputation_fills_with_mean:
  assumes "i < length X"
  shows "fst (impute_features X ! i) = fst (X ! i)
    \<and> (present (snd (X ! i)) \<noteq> [] \<longrightarrow>
         snd (impute_features X ! i) =
           map (\<lambda>x. case x of
                  None \<Rightarrow> Some (sum_list (present (snd (X ! i))) / real (length (present (snd (X ! i)))))
                | Some a \<Rightarrow> Some a) (snd (X ! i))
         \<and> None \<notin> set (snd (impute_features X ! i)))
    \<and> (present (snd (X ! i)) = [] \<longrightarrow> snd (impute_features X ! i) = snd (X ! i))
    \<and> (present ys \<noteq> [] \<longrightarrow>
         impute_target L (Numeric ys) =
           Inr (map (\<lambda>x. case x of
                  None \<Rightarrow> Some (sum_list (present ys) / real (length (present ys)))
                | Some a \<Rightarrow> Some a) ys))
    \<and> (present ys = [] \<longrightarrow> impute_target L (Numeric ys) = Inr ys)
    \<and> (parse_raw L parameters = Inr params \<and> read_file L file = Inr df
         \<and> prepare_data params df = Inr (X, y0)
         \<and> (present (snd (X ! i)) = [] \<or> y0 = Numeric ys \<and> present ys = []) \<longrightarrow>
         (\<exists>e. train_svr_model L file parameters =
            \<lparr>success = False, message = ''Failed to train SVR model'', data = None,
             error = Some (exc_str L e)\<rparr>))"
proof -
  have col: "impute_features X ! i = (fst (X ! i), fillna_mean (snd (X ! i)))"
    using assms by (simp add: impute_features_def split_def)
  have tgt: "impute_target L (Numeric ys) = Inr (fillna_mean ys)"
    by (simp add: impute_target_def)
  have fails: "\<exists>e. train_svr_model L file parameters =
            \<lparr>success = False, message = ''Failed to train SVR model'', data = None,
             error = Some (exc_str L e)\<rparr>"
    if parse: "parse_raw L parameters = Inr params" and read: "read_file L file = Inr df"
      and prep: "prepare_data params df = Inr (X, y0)"
      and miss: "present (snd (X ! i)) = [] \<or> y0 = Numeric ys \<and> present ys = []"
  proof -
    from miss have "\<exists>e. run_pipeline L params df X y0 = Inl e"
      using all_missing_feature_rejected [OF assms] all_missing_target_rejected
      by blast
    then obtain e where "run_pipeline L params df X y0 = Inl e" ..
    from train_pipeline_failure [OF parse read prep this] show ?thesis ..
  qed
  have imputer: "fst (impute_features X ! i) = fst (X ! i)
    \<and> (present (snd (X ! i)) \<noteq> [] \<longrightarrow>
         snd (impute_features X ! i) =
           map (\<lambda>x. case x of
                  None \<Rightarrow> Some (sum_list (present (snd (X ! i))) / real (length (present (snd (X ! i)))))
                | Some a \<Rightarrow> Some a) (snd (X ! i))
         \<and> None \<notin> set (snd (impute_features X ! i)))
    \<and> (present (snd (X ! i)) = [] \<longrightarrow> snd (impute_features X ! i) = snd (X ! i))
    \<and> (present ys \<noteq> [] \<longrightarrow>
         impute_target L (Numeric ys) =
           Inr (map (\<lambda>x. case x of
                  None \<Rightarrow> Some (sum_list (present ys) / real (length (present ys)))
                | Some a \<Rightarrow> Some a) ys))
    \<and> (present ys = [] \<longrightarrow> impute_target L (Numeric ys) = Inr ys)"
    unfolding col tgt fst_conv snd_conv
    using fillna_mean_cases [of "snd (X ! i)"] fillna_mean_cases [of ys] by blast
  from imputer fails show ?thesis by blast
qed

theorem imputation_fills_with_mean_witness:
  "snd (impute_features [(''a'', [Some 1, None, Some 3]), (''b'', [None, None])] ! 0) =
     [Some 1, Some 2, Some 3]
 \<and> snd (impute_features [(''a'', [Some 1, None, Some 3]), (''b'', [None, None])] ! 1) =
     [None, None]
 \<and> impute_target (sample_world sample_params) (Numeric [Some 2, None]) = Inr [Some 2, Some 2]
 \<and> impute_target (sample_world sample_params) (Numeric [None, None]) = Inr [None, None]
 \<and> \<not> success (train_svr_model (sample_world sample_params) gappy_file sample_text)
 \<and> message (train_svr_model (sample_world sample_params) gappy_file sample_text) =
     ''Failed to train SVR model''"
proof -
  let ?X = "[(''a'', [Some 1, None, Some (3::real)]), (''b'', [None, None])]"
  let ?L = "sample_world sample_params"
  have pa: "present [Some 1, None, Some (3::real)] = [1, 3]"
    and pb: "present ([None, None] :: real option list) = []"
    and py: "present [Some (2::real), None] = [2]"
    and pg: "present ([None, None, None, None] :: real option list) = []"
    by (simp_all add: present_def)
  have a: "snd (impute_features ?X ! 0) = [Some 1, Some 2, Some 3]"
    using imputation_fills_with_mean [of 0 ?X "[Some 2, None]" ?L]
    by (simp add: pa)
  have b: "snd (impute_features ?X ! 1) = [None, None]"
    using imputation_fills_with_mean [of 1 ?X "[None, None]" ?L]
    by (simp add: pb)
  have c: "impute_target ?L (Numeric [Some 2, None]) = Inr [Some 2, Some 2]"
    using imputation_fills_with_mean [of 0 ?X "[Some 2, None]" ?L]
    by (simp add: py)
  have d: "impute_target ?L (Numeric [None, None]) = Inr [None, None]"
    using imputation_fills_with_mean [of 1 ?X "[None, None]" ?L]
    by (simp add: pb)
  have parse: "parse_raw ?L sample_text = Inr sample_params"
    by (simp add: sample_world_def)
  have "\<exists>e. train_svr_model ?L gappy_file sample_text =
            \<lparr>success = False, message = ''Failed to train SVR model'', data = None,
             error = Some (exc_str ?L e)\<rparr>"
    using imputation_fills_with_mean [of 0 "[(''x'', [None, None, None, None])]" "[]" ?L
        sample_text sample_params gappy_file gappy_frame
        "Numeric [Some 2, Some 4, Some 6, Some 8]"]
    by (simp add: parse read_file_gappy prepare_gappy pg)
  then have e: "\<not> success (train_svr_model ?L gappy_file sample_text)
    \<and> message (train_svr_model ?L gappy_file sample_text) = ''Failed to train SVR model''"
    by auto
  from a b c d e show ?thesis by simp
qed


section \<open>Metrics\<close>






lemma ss_res_nonneg: "0 \<le> ss_res t p"
  unfolding ss_res_def by (intro sum_list_nonneg) auto






section \<open>Standardisation\<close>










end
